theory Spec2Isabelle
  imports Main
begin

section \<open>The line-number gutter of \<open>CodeEditor\<close>\<close>

subsection \<open>Width of the gutter\<close>

text \<open>
  The loop of \<open>CodeEditor.lineNumberAreaWidth\<close>:
  \<^verbatim>\<open>
      while max_block_count >= 10:
          max_block_count //= 10
          digits += 1
  \<close>
  Python integers are unbounded and \<open>//\<close> rounds towards minus infinity, as \<open>div\<close> on
  \<open>int\<close> does. The loop state is the pair \<open>(max_block_count, digits)\<close>; the value that
  the method goes on to use is \<open>digits\<close>.
\<close>

function digits_loop :: "int \<Rightarrow> int \<Rightarrow> int" where
  "digits_loop max_block_count digits =
     (if max_block_count \<ge> 10
      then digits_loop (max_block_count div 10) (digits + 1)
      else digits)"
  by pat_completeness auto
termination
  by (relation "measure (\<lambda>(m, d). nat m)") auto

declare digits_loop.simps [simp del]

text \<open>
  The digit count that the method reaches for a block count: \<open>digits = 1\<close>,
  \<open>max_block_count = max(1, self.blockCount())\<close>, then the loop.
\<close>

definition line_number_digits :: "int \<Rightarrow> int" where
  "line_number_digits block_count = digits_loop (max 1 block_count) 1"

text \<open>
  \<open>CodeEditor.lineNumberAreaWidth\<close>. The method reads two values from the toolkit,
  \<open>self.fontMetrics().horizontalAdvance('9')\<close> and \<open>self.blockCount()\<close>; they are the
  two arguments here, in that order.
\<close>

definition lineNumberAreaWidth :: "int \<Rightarrow> int \<Rightarrow> int" where
  "lineNumberAreaWidth advance9 block_count =
     (let digits = line_number_digits block_count;
          space = 3 + advance9 * digits
      in space)"

subsection \<open>Python's \<open>str\<close> on integers\<close>

text \<open>
  The specification measures the digit count as \<open>len(str(N))\<close>. This is Python's decimal
  rendering of an integer, written from the language's definition and not from the loop
  above: most significant digit first, no leading zeros, a minus sign for negative values.
\<close>

definition digit_char :: "nat \<Rightarrow> char" where
  "digit_char d = ''0123456789'' ! d"

function str_nat :: "nat \<Rightarrow> string" where
  "str_nat n = (if n < 10 then [digit_char n] else str_nat (n div 10) @ [digit_char (n mod 10)])"
  by pat_completeness auto
termination
  by (relation "measure (\<lambda>n. n)") auto

declare str_nat.simps [simp del]

definition py_str :: "int \<Rightarrow> string" where
  "py_str i = (if i < 0 then CHR ''-'' # str_nat (nat (- i)) else str_nat (nat i))"

section \<open>The editing surface \<open>CodeEditor\<close>\<close>

subsection \<open>Text and the toolkit's document\<close>

text \<open>
  A Python \<open>str\<close> and a toolkit string are sequences of Unicode code points; a code point
  is a natural number. The characters that the code and the toolkit treat specially:
\<close>

type_synonym ustring = "nat list"

abbreviation TAB :: nat where "TAB \<equiv> 9"
abbreviation LF :: nat where "LF \<equiv> 10"
abbreviation CR :: nat where "CR \<equiv> 13"
abbreviation SPACE :: nat where "SPACE \<equiv> 32"
abbreviation NBSP :: nat where "NBSP \<equiv> 160"
abbreviation LineSeparator :: nat where "LineSeparator \<equiv> 8232"
abbreviation ParagraphSeparator :: nat where "ParagraphSeparator \<equiv> 8233"
abbreviation QTextBeginningOfFrame :: nat where "QTextBeginningOfFrame \<equiv> 64976"
abbreviation QTextEndOfFrame :: nat where "QTextEndOfFrame \<equiv> 64977"

text \<open>
  The document of a \<open>QPlainTextEdit\<close> is a sequence of blocks. Its text is held with one
  paragraph separator (U+2029) between two blocks. \<open>QTextCursor.insertText\<close> starts a new
  block at a line feed, a carriage return (a carriage return followed by a line feed
  counts once), a paragraph separator and the two frame markers U+FDD0 and U+FDD1; every
  other character is stored as it is.
\<close>

definition starts_block :: "nat \<Rightarrow> bool" where
  "starts_block ch \<longleftrightarrow>
     ch = LF \<or> ch = ParagraphSeparator \<or> ch = QTextBeginningOfFrame
     \<or> ch = QTextEndOfFrame \<or> ch = CR"

fun stored_text :: "ustring \<Rightarrow> ustring" where
  "stored_text [] = []"
| "stored_text [ch] = [if starts_block ch then ParagraphSeparator else ch]"
| "stored_text (ch # nx # rest) =
     (if ch = CR \<and> nx = LF then ParagraphSeparator # stored_text rest
      else (if starts_block ch then ParagraphSeparator else ch) # stored_text (nx # rest))"

text \<open>
  \<open>QTextDocument.toPlainText\<close> returns the text with the paragraph separator, the line
  separator (U+2028) and the frame markers replaced by a line feed, and the no-break
  space (U+00A0) replaced by a space.
\<close>

definition plain_char :: "nat \<Rightarrow> nat" where
  "plain_char ch =
     (if ch = QTextBeginningOfFrame \<or> ch = QTextEndOfFrame
         \<or> ch = ParagraphSeparator \<or> ch = LineSeparator then LF
      else if ch = NBSP then SPACE
      else ch)"

subsection \<open>Geometry and widgets\<close>

record QRect =
  rect_x :: int
  rect_y :: int
  rect_width :: int
  rect_height :: int

definition rect_isNull :: "QRect \<Rightarrow> bool" where
  "rect_isNull r \<longleftrightarrow> rect_width r = 0 \<and> rect_height r = 0"

text \<open>
  \<open>QRect.contains(other)\<close>, not proper: false when either rectangle is null, and
  otherwise the edges of \<open>other\<close> lie within the edges of the rectangle, where a negative
  extent swaps the two edges of that axis.
\<close>

definition rect_contains :: "QRect \<Rightarrow> QRect \<Rightarrow> bool" where
  "rect_contains r other =
     (if rect_isNull r \<or> rect_isNull other then False
      else
        (let x1 = rect_x r; x2 = rect_x r + rect_width r - 1;
             l1 = (if x2 - x1 + 1 < 0 then x2 else x1);
             r1 = (if x2 - x1 + 1 < 0 then x1 else x2);
             ox1 = rect_x other; ox2 = rect_x other + rect_width other - 1;
             l2 = (if ox2 - ox1 + 1 < 0 then ox2 else ox1);
             r2 = (if ox2 - ox1 + 1 < 0 then ox1 else ox2);
             y1 = rect_y r; y2 = rect_y r + rect_height r - 1;
             t1 = (if y2 - y1 + 1 < 0 then y2 else y1);
             b1 = (if y2 - y1 + 1 < 0 then y1 else y2);
             oy1 = rect_y other; oy2 = rect_y other + rect_height other - 1;
             t2 = (if oy2 - oy1 + 1 < 0 then oy2 else oy1);
             b2 = (if oy2 - oy1 + 1 < 0 then oy1 else oy2)
         in \<not> (l2 < l1 \<or> r2 > r1) \<and> \<not> (t2 < t1 \<or> b2 > b1)))"

text \<open>
  The gutter widget \<open>LineNumberArea\<close>. Of the widget the model keeps its geometry and the
  repaint requests it has received, in order: \<open>scroll(dx, dy)\<close> moves the rendered
  content of the widget by the offset, \<open>update(x, y, w, h)\<close> marks a rectangle of the
  widget for repainting.
\<close>

datatype repaint = Scroll int int | Update int int int int

record LineNumberArea =
  geometry :: QRect
  requests :: "repaint list"

definition scroll :: "int \<Rightarrow> int \<Rightarrow> LineNumberArea \<Rightarrow> LineNumberArea" where
  "scroll dx dy area = area\<lparr>requests := requests area @ [Scroll dx dy]\<rparr>"

definition update :: "int \<Rightarrow> int \<Rightarrow> int \<Rightarrow> int \<Rightarrow> LineNumberArea \<Rightarrow> LineNumberArea" where
  "update ux uy w h area = area\<lparr>requests := requests area @ [Update ux uy w h]\<rparr>"

definition width :: "LineNumberArea \<Rightarrow> int" where
  "width area = rect_width (geometry area)"

subsection \<open>Cursors and extra selections\<close>

record QTextCursor =
  anchor :: nat
  position :: nat

definition selectionStart :: "QTextCursor \<Rightarrow> nat" where
  "selectionStart c = min (anchor c) (position c)"

definition selectionEnd :: "QTextCursor \<Rightarrow> nat" where
  "selectionEnd c = max (anchor c) (position c)"

definition clearSelection :: "QTextCursor \<Rightarrow> QTextCursor" where
  "clearSelection c = c\<lparr>anchor := position c\<rparr>"

datatype QColor = GlobalColor string | Lighter QColor int

record ExtraSelection =
  format_background :: "QColor option"
  format_FullWidthSelection :: bool
  cursor :: QTextCursor

subsection \<open>The editor\<close>

text \<open>
  The state of one \<open>CodeEditor\<close>: the document text as the toolkit holds it and its
  modification flag, the text cursor, the read-only flag, the attribute \<open>file_path\<close>
  (\<open>None\<close> in Python is \<open>None\<close> here), the extra selections, the left viewport margin and
  the gutter widget. Two readings that the toolkit supplies are kept with it: the advance
  of the digit 9 in the editor's font and the rectangle of the viewport.
\<close>

record CodeEditor =
  document :: ustring
  modified :: bool
  textCursor :: QTextCursor
  readOnly :: bool
  file_path :: "string option"
  extraSelections :: "ExtraSelection list"
  viewportMargins :: "int \<times> int \<times> int \<times> int"
  lineNumberArea :: LineNumberArea
  horizontalAdvance9 :: int
  viewport_rect :: QRect

definition blockCount :: "CodeEditor \<Rightarrow> int" where
  "blockCount self = int (length (filter (\<lambda>ch. ch = ParagraphSeparator) (document self))) + 1"

definition toPlainText :: "CodeEditor \<Rightarrow> ustring" where
  "toPlainText self = map plain_char (document self)"

definition selectedText :: "CodeEditor \<Rightarrow> ustring" where
  "selectedText self =
     take (selectionEnd (textCursor self) - selectionStart (textCursor self))
       (drop (selectionStart (textCursor self)) (document self))"

text \<open>\<open>CodeEditor.updateLineNumberAreaWidth\<close>; the argument is ignored, as in the source.\<close>

definition updateLineNumberAreaWidth :: "int \<Rightarrow> CodeEditor \<Rightarrow> CodeEditor" where
  "updateLineNumberAreaWidth ignored self =
     self\<lparr>viewportMargins := (lineNumberAreaWidth (horizontalAdvance9 self) (blockCount self), 0, 0, 0)\<rparr>"

text \<open>
  \<open>CodeEditor.updateLineNumberArea\<close>. \<open>if dy:\<close> on a Python integer is the test
  \<open>dy \<noteq> 0\<close>.
\<close>

definition updateLineNumberArea :: "QRect \<Rightarrow> int \<Rightarrow> CodeEditor \<Rightarrow> CodeEditor" where
  "updateLineNumberArea rect dy self =
     (let self1 =
        (if dy \<noteq> 0
         then self\<lparr>lineNumberArea := scroll 0 dy (lineNumberArea self)\<rparr>
         else self\<lparr>lineNumberArea :=
                update 0 (rect_y rect) (width (lineNumberArea self)) (rect_height rect)
                  (lineNumberArea self)\<rparr>)
      in if rect_contains rect (viewport_rect self1)
         then updateLineNumberAreaWidth 0 self1
         else self1)"

text \<open>
  \<open>CodeEditor.resizeEvent\<close>, after the toolkit's own handler has run: the argument is
  the contents rectangle that \<open>self.contentsRect()\<close> then returns.
\<close>

definition resizeEvent :: "QRect \<Rightarrow> CodeEditor \<Rightarrow> CodeEditor" where
  "resizeEvent cr self =
     self\<lparr>lineNumberArea := (lineNumberArea self)\<lparr>geometry :=
        \<lparr>rect_x = rect_x cr, rect_y = rect_y cr,
         rect_width = lineNumberAreaWidth (horizontalAdvance9 self) (blockCount self),
         rect_height = rect_height cr\<rparr>\<rparr>\<rparr>"

text \<open>\<open>CodeEditor.highlightCurrentLine\<close>.\<close>

definition highlightCurrentLine :: "CodeEditor \<Rightarrow> CodeEditor" where
  "highlightCurrentLine self =
     (let extra_selections = [];
          extra_selections =
            (if \<not> readOnly self
             then extra_selections @
               [\<lparr>format_background = Some (Lighter (GlobalColor ''yellow'') 5),
                 format_FullWidthSelection = True,
                 cursor = clearSelection (textCursor self)\<rparr>]
             else extra_selections)
      in self\<lparr>extraSelections := extra_selections\<rparr>)"

text \<open>
  The signal connections made in \<open>CodeEditor.__init__\<close>: \<open>blockCountChanged\<close> runs
  \<open>updateLineNumberAreaWidth\<close> and \<open>cursorPositionChanged\<close> runs
  \<open>highlightCurrentLine\<close>. The toolkit emits each signal when the value it names has
  changed; \<open>emit_changes old new\<close> runs the connected slots for a change of the editor
  from \<open>old\<close> to \<open>new\<close>.
\<close>

definition emit_changes :: "CodeEditor \<Rightarrow> CodeEditor \<Rightarrow> CodeEditor" where
  "emit_changes old new =
     (let new1 = (if blockCount new \<noteq> blockCount old
                  then updateLineNumberAreaWidth (blockCount new) new else new)
      in if position (textCursor new1) \<noteq> position (textCursor old)
         then highlightCurrentLine new1 else new1)"

text \<open>
  \<open>setTextCursor\<close> of the toolkit: the cursor is replaced, and a change of position is
  signalled.
\<close>

definition setTextCursor :: "QTextCursor \<Rightarrow> CodeEditor \<Rightarrow> CodeEditor" where
  "setTextCursor c self = emit_changes self (self\<lparr>textCursor := c\<rparr>)"

text \<open>
  \<open>cursor.insertText(text)\<close> on a cursor obtained from \<open>self.textCursor()\<close>: the selected
  range of the document (empty when anchor and position coincide) is replaced by the
  text, the cursor ends behind the inserted text with no selection, the document is
  marked as modified, and the changes are signalled. The call does not consult the
  read-only flag of the widget.
\<close>

definition insertText :: "ustring \<Rightarrow> CodeEditor \<Rightarrow> CodeEditor" where
  "insertText txt self =
     (let start = selectionStart (textCursor self);
          stop = selectionEnd (textCursor self);
          ins = stored_text txt;
          after = start + length ins
      in emit_changes self
           (self\<lparr>document := take start (document self) @ ins @ drop stop (document self),
                 modified := True,
                 textCursor := \<lparr>anchor = after, position = after\<rparr>\<rparr>))"

text \<open>
  \<open>setPlainText(text)\<close> of the toolkit: the document is replaced by the text, the cursor
  is at the start, the modification flag is cleared, and the changes are signalled.
\<close>

definition setPlainText :: "ustring \<Rightarrow> CodeEditor \<Rightarrow> CodeEditor" where
  "setPlainText txt self =
     emit_changes self
       (self\<lparr>document := stored_text txt, modified := False,
             textCursor := \<lparr>anchor = 0, position = 0\<rparr>\<rparr>)"

text \<open>
  Key events. Of an event the handler reads only \<open>event.key()\<close>; \<open>Qt.Key_Tab\<close> is the
  key code \<open>0x01000001\<close>. The handler of the base class \<open>QPlainTextEdit\<close> belongs to the
  toolkit and is a parameter.
\<close>

record QKeyEvent =
  key :: int

definition Key_Tab :: int where
  "Key_Tab = 16777217"

definition four_spaces :: ustring where
  "four_spaces = [SPACE, SPACE, SPACE, SPACE]"

text \<open>\<open>CodeEditor.keyPressEvent\<close>.\<close>

definition keyPressEvent ::
  "(QKeyEvent \<Rightarrow> CodeEditor \<Rightarrow> CodeEditor) \<Rightarrow> QKeyEvent \<Rightarrow> CodeEditor \<Rightarrow> CodeEditor" where
  "keyPressEvent super_keyPressEvent event self =
     (if key event = Key_Tab
      then insertText four_spaces self
      else super_keyPressEvent event self)"

text \<open>
  \<open>CodeEditor.__init__\<close>: an empty document, no file path, the signal connections, then
  \<open>updateLineNumberAreaWidth(0)\<close> and \<open>highlightCurrentLine()\<close>. The three arguments are
  what the toolkit supplies for a new widget: the digit advance of its font, the geometry
  of a new child widget and the rectangle of the viewport.
\<close>

definition new_CodeEditor :: "int \<Rightarrow> QRect \<Rightarrow> QRect \<Rightarrow> CodeEditor" where
  "new_CodeEditor adv area_geometry vrect =
     highlightCurrentLine
       (updateLineNumberAreaWidth 0
          \<lparr>document = [], modified = False,
           textCursor = \<lparr>anchor = 0, position = 0\<rparr>,
           readOnly = False, file_path = None, extraSelections = [],
           viewportMargins = (0, 0, 0, 0),
           lineNumberArea = \<lparr>geometry = area_geometry, requests = []\<rparr>,
           horizontalAdvance9 = adv, viewport_rect = vrect\<rparr>)"

section \<open>Files and the platform\<close>

text \<open>
  A file holds bytes; a byte is a \<open>char\<close>. The built-in \<open>open\<close> is called with the modes
  \<open>'r'\<close> and \<open>'w'\<close> and no other argument, so files are text files in the encoding of
  the locale, with \<open>newline=None\<close>: reading decodes the bytes and then turns every
  \<open>\r\n\<close> and every remaining \<open>\r\<close> into \<open>\n\<close>; writing turns every \<open>\n\<close> into
  \<open>os.linesep\<close> and then encodes. What the platform fixes is collected in a record: the
  line separator, the codec of the locale (\<open>None\<close> where Python raises
  \<open>UnicodeDecodeError\<close> or \<open>UnicodeEncodeError\<close>), \<open>os.path.basename\<close>, whether the
  device delivers the bytes of an opened file and whether it takes the bytes written to a
  path (it does not where the read, the write or the close of the file fails, as on a
  full disk, and Python raises \<open>OSError\<close>), and what the toolkit supplies for a new
  editor widget.
\<close>

datatype py_error =
  FileNotFoundError | PermissionError | UnicodeDecodeError | UnicodeEncodeError
  | OSError | AttributeError

record platform =
  os_linesep :: ustring
  decode :: "string \<Rightarrow> ustring option"
  encode :: "ustring \<Rightarrow> string option"
  os_path_basename :: "string \<Rightarrow> string"
  device_reads :: "string \<Rightarrow> bool"
  device_accepts :: "string \<Rightarrow> string \<Rightarrow> bool"
  font_advance9 :: int
  child_geometry :: QRect
  viewport_geometry :: QRect

fun universal_newlines :: "ustring \<Rightarrow> ustring" where
  "universal_newlines [] = []"
| "universal_newlines [ch] = [if ch = CR then LF else ch]"
| "universal_newlines (ch # nx # rest) =
     (if ch = CR \<and> nx = LF then LF # universal_newlines rest
      else (if ch = CR then LF else ch) # universal_newlines (nx # rest))"

definition write_newlines :: "ustring \<Rightarrow> ustring \<Rightarrow> ustring" where
  "write_newlines linesep txt = concat (map (\<lambda>ch. if ch = LF then linesep else [ch]) txt)"

text \<open>
  A path names a regular file, with its bytes and whether the process can open it for
  reading and for writing (as its permissions, or a lock held by another process, decide);
  or no file, in a directory where the process may or may not create one; or nothing in a
  directory that does not exist.
\<close>

datatype fnode = File bool bool string | Missing bool | NoDirectory

type_synonym filesystem = "string \<Rightarrow> fnode"

text \<open>\<open>with open(file_path, 'r') as file: content = file.read()\<close>\<close>

definition py_read_text :: "platform \<Rightarrow> filesystem \<Rightarrow> string \<Rightarrow> py_error + ustring" where
  "py_read_text pf fs path =
     (case fs path of
        File may_read may_write bytes \<Rightarrow>
          (if may_read
           then (if device_reads pf path
                 then (case decode pf bytes of
                         None \<Rightarrow> Inl UnicodeDecodeError
                       | Some txt \<Rightarrow> Inr (universal_newlines txt))
                 else Inl OSError)
           else Inl PermissionError)
      | Missing may_create \<Rightarrow> Inl FileNotFoundError
      | NoDirectory \<Rightarrow> Inl FileNotFoundError)"

text \<open>
  \<open>open(file_path, 'w')\<close> empties a file that the process can open for writing and
  creates a file where there is none and the process may create one; otherwise it raises.
\<close>

definition py_open_w :: "filesystem \<Rightarrow> string \<Rightarrow> py_error + filesystem" where
  "py_open_w fs path =
     (case fs path of
        File may_read may_write bytes \<Rightarrow>
          (if may_write then Inr (fs(path := File may_read may_write []))
           else Inl PermissionError)
      | Missing may_create \<Rightarrow>
          (if may_create then Inr (fs(path := File True True []))
           else Inl PermissionError)
      | NoDirectory \<Rightarrow> Inl FileNotFoundError)"

text \<open>
  \<open>file.write(txt)\<close> on the file just opened, and the close at the end of \<open>with\<close>. The
  text is encoded first; a text that cannot be encoded, or bytes that the device does not
  take, leave the file as the open left it. The file is there after a successful open;
  the last two cases are not reached from the handlers.
\<close>

definition py_write :: "platform \<Rightarrow> filesystem \<Rightarrow> string \<Rightarrow> ustring \<Rightarrow> py_error + filesystem" where
  "py_write pf fs path txt =
     (case encode pf (write_newlines (os_linesep pf) txt) of
        None \<Rightarrow> Inl UnicodeEncodeError
      | Some bytes \<Rightarrow>
          (if device_accepts pf path bytes
           then (case fs path of
                   File may_read may_write old \<Rightarrow> Inr (fs(path := File may_read may_write bytes))
                 | Missing may_create \<Rightarrow> Inl OSError
                 | NoDirectory \<Rightarrow> Inl OSError)
           else Inl OSError))"

section \<open>The window \<open>MainWindow\<close>\<close>

text \<open>
  The tab widget holds the pages in order, each an editor with its label, and the index
  of the current page, \<open>-1\<close> when there is none.
\<close>

record page =
  widget :: CodeEditor
  tabText :: string

record MainWindow =
  pages :: "page list"
  currentIndex :: int

definition count :: "MainWindow \<Rightarrow> int" where
  "count self = int (length (pages self))"

definition currentWidget :: "MainWindow \<Rightarrow> CodeEditor option" where
  "currentWidget self =
     (if 0 \<le> currentIndex self \<and> currentIndex self < count self
      then Some (widget (pages self ! nat (currentIndex self)))
      else None)"

text \<open>
  \<open>QTabWidget.addTab\<close> appends a page and returns its index; the first page of an empty
  tab widget becomes the current one.
\<close>

definition addTab :: "CodeEditor \<Rightarrow> string \<Rightarrow> MainWindow \<Rightarrow> int \<times> MainWindow" where
  "addTab editor label self =
     (count self,
      self\<lparr>pages := pages self @ [\<lparr>widget = editor, tabText = label\<rparr>],
            currentIndex := (if pages self = [] then 0 else currentIndex self)\<rparr>)"

definition setCurrentIndex :: "int \<Rightarrow> MainWindow \<Rightarrow> MainWindow" where
  "setCurrentIndex i self =
     (if 0 \<le> i \<and> i < count self then self\<lparr>currentIndex := i\<rparr> else self)"

definition setTabText :: "int \<Rightarrow> string \<Rightarrow> MainWindow \<Rightarrow> MainWindow" where
  "setTabText i label self =
     (if 0 \<le> i \<and> i < count self
      then self\<lparr>pages := (pages self)[nat i := (pages self ! nat i)\<lparr>tabText := label\<rparr>]\<rparr>
      else self)"

text \<open>
  \<open>QTabWidget.removeTab\<close> takes the page at the index out of the tab widget and does
  nothing for an index that names no page. The pages behind it move up by one. When the
  current page is removed, the page that followed it becomes current, or the one before
  it when it was the last.
\<close>

definition removeTab :: "int \<Rightarrow> MainWindow \<Rightarrow> MainWindow" where
  "removeTab i self =
     (if 0 \<le> i \<and> i < count self
      then
        (let rest = take (nat i) (pages self) @ drop (Suc (nat i)) (pages self);
             cur = currentIndex self
         in self\<lparr>pages := rest,
                  currentIndex :=
                    (if rest = [] then - 1
                     else if i < cur then cur - 1
                     else if i = cur \<and> i = count self - 1 then cur - 1
                     else cur)\<rparr>)
      else self)"

text \<open>The editor that \<open>CodeEditor()\<close> constructs on a platform.\<close>

definition CodeEditor_on :: "platform \<Rightarrow> CodeEditor" where
  "CodeEditor_on pf = new_CodeEditor (font_advance9 pf) (child_geometry pf) (viewport_geometry pf)"

text \<open>\<open>MainWindow.new_file\<close>.\<close>

definition new_file :: "platform \<Rightarrow> MainWindow \<Rightarrow> MainWindow" where
  "new_file pf self =
     (let new_editor = CodeEditor_on pf;
          (new_index, self1) = addTab new_editor ''Untitled'' self
      in setCurrentIndex new_index self1)"

text \<open>
  \<open>MainWindow.open_file\<close>. The path that the file dialog returns, the \<open>file_path\<close> of
  the source, is the argument \<open>path\<close>; it is empty when the dialog was cancelled. An exception leaves the
  window as it was and is the result \<open>Inl\<close>.
\<close>

definition open_file ::
  "platform \<Rightarrow> filesystem \<Rightarrow> string \<Rightarrow> MainWindow \<Rightarrow> py_error + MainWindow" where
  "open_file pf fs path self =
     (if path \<noteq> []
      then
        (case py_read_text pf fs path of
           Inl err \<Rightarrow> Inl err
         | Inr content \<Rightarrow>
             (let new_editor = CodeEditor_on pf;
                  new_editor = setPlainText content new_editor;
                  new_editor = new_editor\<lparr>file_path := Some path\<rparr>;
                  file_name = os_path_basename pf path;
                  (new_index, self1) = addTab new_editor file_name self
              in Inr (setCurrentIndex new_index self1)))
      else Inr self)"

text \<open>
  The handlers that save change the window and the file system, and an exception may
  leave both changed: a handler returns the state it leaves behind and the exception it
  raised, if any.
\<close>

datatype 's outcome = Returned 's | Raised py_error 's

fun state_of :: "'s outcome \<Rightarrow> 's" where
  "state_of (Returned s) = s"
| "state_of (Raised err s) = s"

fun raised :: "'s outcome \<Rightarrow> py_error option" where
  "raised (Returned s) = None"
| "raised (Raised err s) = Some err"

text \<open>
  \<open>MainWindow._save_to_path\<close>, with \<open>path\<close> for its \<open>file_path\<close>. The file is opened before the argument of \<open>file.write\<close>
  is evaluated; \<open>currentWidget()\<close> is \<open>None\<close> when the tab widget has no page, and
  \<open>None.toPlainText\<close> raises \<open>AttributeError\<close>.
\<close>

definition save_to_path ::
  "platform \<Rightarrow> string \<Rightarrow> MainWindow \<times> filesystem \<Rightarrow> (MainWindow \<times> filesystem) outcome" where
  "save_to_path pf path st =
     (let self = fst st; fs = snd st;
          current_editor = currentWidget self
      in case py_open_w fs path of
           Inl err \<Rightarrow> Raised err (self, fs)
         | Inr fs1 \<Rightarrow>
             (case current_editor of
                None \<Rightarrow> Raised AttributeError (self, fs1)
              | Some editor \<Rightarrow>
                  (case py_write pf fs1 path (toPlainText editor) of
                     Inl err \<Rightarrow> Raised err (self, fs1)
                   | Inr fs2 \<Rightarrow> Returned (self, fs2))))"

text \<open>
  \<open>MainWindow.save_file_as\<close>; \<open>chosen\<close> is the path that the save dialog returns.
  Assigning \<open>file_path\<close> on \<open>None\<close> raises \<open>AttributeError\<close>.
\<close>

definition set_current_file_path :: "string \<Rightarrow> MainWindow \<Rightarrow> MainWindow" where
  "set_current_file_path path self =
     self\<lparr>pages := (pages self)[nat (currentIndex self) :=
        (pages self ! nat (currentIndex self))
          \<lparr>widget := (widget (pages self ! nat (currentIndex self)))
              \<lparr>file_path := Some path\<rparr>\<rparr>]\<rparr>"

definition save_file_as ::
  "platform \<Rightarrow> string \<Rightarrow> MainWindow \<times> filesystem \<Rightarrow> (MainWindow \<times> filesystem) outcome" where
  "save_file_as pf chosen st =
     (let self = fst st; fs = snd st;
          current_editor = currentWidget self
      in if chosen \<noteq> []
         then
           (case current_editor of
              None \<Rightarrow> Raised AttributeError (self, fs)
            | Some editor \<Rightarrow>
                (case save_to_path pf chosen (set_current_file_path chosen self, fs) of
                   Raised err st1 \<Rightarrow> Raised err st1
                 | Returned st1 \<Rightarrow>
                     (let file_name = os_path_basename pf chosen
                      in Returned
                           (setTabText (currentIndex (fst st1)) file_name (fst st1), snd st1))))
         else Returned (self, fs))"

text \<open>
  \<open>MainWindow.save_file\<close>. Reading \<open>file_path\<close> of \<open>None\<close> raises \<open>AttributeError\<close>;
  \<open>None\<close> and the empty string are both false as a condition.
\<close>

definition save_file ::
  "platform \<Rightarrow> string \<Rightarrow> MainWindow \<times> filesystem \<Rightarrow> (MainWindow \<times> filesystem) outcome" where
  "save_file pf chosen st =
     (case currentWidget (fst st) of
        None \<Rightarrow> Raised AttributeError st
      | Some current_editor \<Rightarrow>
          (case file_path current_editor of
             None \<Rightarrow> save_file_as pf chosen st
           | Some path \<Rightarrow>
               if path \<noteq> [] then save_to_path pf path st else save_file_as pf chosen st))"

text \<open>\<open>MainWindow.close_tab\<close>.\<close>

definition close_tab :: "int \<Rightarrow> MainWindow \<Rightarrow> MainWindow" where
  "close_tab index self = removeTab index self"

text \<open>
  \<open>MainWindow.initUI\<close>, as far as the tab widget goes: an empty tab widget, then
  \<open>new_file()\<close>.
\<close>

definition initUI :: "platform \<Rightarrow> MainWindow" where
  "initUI pf = new_file pf \<lparr>pages = [], currentIndex = - 1\<rparr>"

text \<open>
  Opening a file and then saving at once, as one step: the open dialog returns
  \<open>path\<close>, and the save dialog, should it come up, is cancelled.
\<close>

definition open_then_save ::
  "platform \<Rightarrow> string \<Rightarrow> MainWindow \<times> filesystem \<Rightarrow> (MainWindow \<times> filesystem) outcome" where
  "open_then_save pf path st =
     (case open_file pf (snd st) path (fst st) of
        Inl err \<Rightarrow> Raised err st
      | Inr self1 \<Rightarrow> save_file pf [] (self1, snd st))"

text \<open>
  Two platforms to run the handlers on. Both use a codec with one byte for each code point
  below 256 (ISO 8859-1) and the POSIX \<open>basename\<close>, which keeps what follows the last
  slash, and have a device that carries out every read and write; they differ in the line
  separator.
\<close>

definition latin1_decode :: "string \<Rightarrow> ustring option" where
  "latin1_decode bytes = Some (map of_char bytes)"

definition latin1_encode :: "ustring \<Rightarrow> string option" where
  "latin1_encode txt = (if list_all (\<lambda>ch. ch < 256) txt then Some (map char_of txt) else None)"

definition posix_basename :: "string \<Rightarrow> string" where
  "posix_basename path = rev (takeWhile (\<lambda>ch. ch \<noteq> CHR ''/'') (rev path))"

definition posix_latin1 :: platform where
  "posix_latin1 =
     \<lparr>os_linesep = [LF], decode = latin1_decode, encode = latin1_encode,
      os_path_basename = posix_basename,
      device_reads = (\<lambda>path. True), device_accepts = (\<lambda>path bytes. True),
      font_advance9 = 7,
      child_geometry = \<lparr>rect_x = 0, rect_y = 0, rect_width = 100, rect_height = 30\<rparr>,
      viewport_geometry = \<lparr>rect_x = 0, rect_y = 0, rect_width = 640, rect_height = 480\<rparr>\<rparr>"

definition windows_latin1 :: platform where
  "windows_latin1 = posix_latin1\<lparr>os_linesep := [CR, LF]\<rparr>"

text \<open>\<open>with open(path, 'w') as file: file.write(txt)\<close> as a whole.\<close>

definition py_write_text ::
  "platform \<Rightarrow> filesystem \<Rightarrow> string \<Rightarrow> ustring \<Rightarrow> py_error + filesystem" where
  "py_write_text pf fs path txt =
     (case py_open_w fs path of
        Inl err \<Rightarrow> Inl err
      | Inr fs1 \<Rightarrow> py_write pf fs1 path txt)"

text \<open>
  The line endings of a text are those of the platform when writing what reading gives
  yields the text again.
\<close>

definition native_line_endings :: "platform \<Rightarrow> ustring \<Rightarrow> bool" where
  "native_line_endings pf txt \<longleftrightarrow>
     write_newlines (os_linesep pf) (universal_newlines txt) = txt"

section \<open>States to run the handlers on\<close>

text \<open>
  An editor holding the text \<open>ab\<close> with the cursor between the two letters, and the same
  editor with the whole text selected.
\<close>

definition editor_ab :: CodeEditor where
  "editor_ab =
     setTextCursor \<lparr>anchor = 1, position = 1\<rparr> (setPlainText [97, 98] (CodeEditor_on posix_latin1))"

definition editor_ab_selected :: CodeEditor where
  "editor_ab_selected = setTextCursor \<lparr>anchor = 0, position = 2\<rparr> editor_ab"

text \<open>
  A disk with a file of the four bytes \<open>a\<close>, carriage return, line feed, \<open>b\<close>, a file
  of the three bytes \<open>a\<close>, line feed, \<open>b\<close>, a copy of the latter that the process can
  open for reading and not for writing, a file that it can open for neither, and nothing
  else; a new file may be created anywhere.
\<close>

definition crlf_bytes :: string where
  "crlf_bytes = [CHR ''a'', CHR 0x0D, CHR 0x0A, CHR ''b'']"

definition lf_bytes :: string where
  "lf_bytes = [CHR ''a'', CHR 0x0A, CHR ''b'']"

definition disk0 :: filesystem where
  "disk0 = (\<lambda>path. Missing True)
     (''/tmp/a.txt'' := File True True crlf_bytes, ''/tmp/b.txt'' := File True True lf_bytes,
      ''/tmp/ro.txt'' := File True False lf_bytes,
      ''/etc/shadow'' := File False False [])"

text \<open>A window with three pages, the second one current.\<close>

definition three_pages :: MainWindow where
  "three_pages =
     \<lparr>pages = [\<lparr>widget = editor_ab, tabText = ''a.txt''\<rparr>,
               \<lparr>widget = CodeEditor_on posix_latin1, tabText = ''Untitled''\<rparr>,
               \<lparr>widget = editor_ab_selected, tabText = ''b.txt''\<rparr>],
      currentIndex = 1\<rparr>"

section \<open>Properties of the gutter width\<close>

lemma digits_loop_small: "m < 10 \<Longrightarrow> digits_loop m d = d"
  by (subst digits_loop.simps) simp

lemma digits_loop_step: "10 \<le> m \<Longrightarrow> digits_loop m d = digits_loop (m div 10) (d + 1)"
  by (subst digits_loop.simps) simp

lemma str_nat_small: "n < 10 \<Longrightarrow> str_nat n = [digit_char n]"
  by (subst str_nat.simps) simp

lemma str_nat_step: "10 \<le> n \<Longrightarrow> str_nat n = str_nat (n div 10) @ [digit_char (n mod 10)]"
  by (subst str_nat.simps) simp

lemma digits_loop_ge: "d \<le> digits_loop m d"
proof (induction m d rule: digits_loop.induct)
  case (1 m d)
  show ?case
  proof (cases "10 \<le> m")
    case True
    with "1.IH" have "d + 1 \<le> digits_loop (m div 10) (d + 1)" by simp
    with True show ?thesis by (simp add: digits_loop_step)
  next
    case False
    then show ?thesis by (simp add: digits_loop_small)
  qed
qed

lemma digits_loop_mono: "a \<le> b \<Longrightarrow> digits_loop a d \<le> digits_loop b d"
proof (induction b d arbitrary: a rule: digits_loop.induct)
  case (1 b d)
  show ?case
  proof (cases "10 \<le> b")
    case bbig: True
    show ?thesis
    proof (cases "10 \<le> a")
      case True
      from "1.prems" have "a div 10 \<le> b div 10"
        by (rule zdiv_mono1) simp
      with "1.IH" bbig have "digits_loop (a div 10) (d + 1) \<le> digits_loop (b div 10) (d + 1)"
        by simp
      with True bbig show ?thesis by (simp add: digits_loop_step)
    next
      case False
      have "d \<le> d + 1" by simp
      also have "\<dots> \<le> digits_loop (b div 10) (d + 1)" by (rule digits_loop_ge)
      finally show ?thesis using False bbig by (simp add: digits_loop_step digits_loop_small)
    qed
  next
    case False
    with "1.prems" have "a < 10" by simp
    with False show ?thesis by (simp add: digits_loop_small)
  qed
qed

lemma digits_loop_str_nat: "digits_loop (int n) d = d + int (length (str_nat n)) - 1"
proof (induction n arbitrary: d rule: str_nat.induct)
  case (1 n)
  show ?case
  proof (cases "n < 10")
    case True
    then show ?thesis by (simp add: digits_loop_small str_nat_small)
  next
    case False
    then have big: "10 \<le> int n" by simp
    have "int n div 10 = int (n div 10)" by simp
    with big have "digits_loop (int n) d = digits_loop (int (n div 10)) (d + 1)"
      by (simp add: digits_loop_step)
    also have "\<dots> = d + 1 + int (length (str_nat (n div 10))) - 1"
      using "1.IH" False by simp
    also have "\<dots> = d + int (length (str_nat n)) - 1"
      using False by (simp add: str_nat_step)
    finally show ?thesis .
  qed
qed

lemma line_number_digits_len_str:
  assumes "1 \<le> N"
  shows "line_number_digits N = int (length (py_str N))"
proof -
  define n where "n = nat N"
  with assms have N: "N = int n" and pos: "1 \<le> int n" by simp_all
  have "line_number_digits (int n) = digits_loop (int n) 1"
    using pos by (simp add: line_number_digits_def max_def)
  also have "\<dots> = 1 + int (length (str_nat n)) - 1"
    by (rule digits_loop_str_nat)
  also have "\<dots> = int (length (py_str (int n)))"
    by (simp add: py_str_def)
  finally show ?thesis by (simp only: N)
qed

lemma line_number_digits_mono: "N1 \<le> N2 \<Longrightarrow> line_number_digits N1 \<le> line_number_digits N2"
  unfolding line_number_digits_def by (rule digits_loop_mono) simp

lemma line_number_digits_pos: "1 \<le> line_number_digits N"
  unfolding line_number_digits_def by (rule digits_loop_ge)

subsection \<open>The digit count is that of the decimal rendering\<close>

text \<open>
  Claim C1. For every block count \<open>N \<ge> 1\<close> the width computed by
  \<open>lineNumberAreaWidth\<close> is the fixed margin 3 plus the advance of one digit times the
  digit count of \<open>N\<close>, and that digit count is \<open>len(str(N))\<close>. For \<open>N\<close> in
  1, 9, 10, 99, 100 the digit count computed by the loop is 1, 1, 2, 2, 3, which is also
  the length of \<open>str(N)\<close> there.
\<close>

theorem lineNumberAreaWidth_digit_count:
  "(1 \<le> N \<longrightarrow>
      line_number_digits N = int (length (py_str N)) \<and>
      lineNumberAreaWidth advance9 N = 3 + advance9 * int (length (py_str N)))
   \<and> map line_number_digits [1, 9, 10, 99, 100] = [1, 1, 2, 2, 3]
   \<and> map (\<lambda>n. int (length (py_str n))) [1, 9, 10, 99, 100] = [1, 1, 2, 2, 3]"
proof (intro conjI impI)
  assume "1 \<le> N"
  then show d: "line_number_digits N = int (length (py_str N))"
    by (rule line_number_digits_len_str)
  show "lineNumberAreaWidth advance9 N = 3 + advance9 * int (length (py_str N))"
    by (simp add: lineNumberAreaWidth_def d)
next
  show "map line_number_digits [1, 9, 10, 99, 100] = [1, 1, 2, 2, 3]"
    by (simp add: line_number_digits_def digits_loop.simps)
next
  show "map (\<lambda>n. int (length (py_str n))) [1, 9, 10, 99, 100] = [1, 1, 2, 2, 3]"
    by (simp add: py_str_def str_nat.simps)
qed

theorem lineNumberAreaWidth_digit_count_witness:
  "(1::int) \<le> 100 \<and> py_str 100 = ''100'' \<and> line_number_digits 100 = 3
   \<and> lineNumberAreaWidth 7 100 = 24"
  using lineNumberAreaWidth_digit_count [of 100 7]
  by (simp add: py_str_def str_nat.simps digit_char_def)

subsection \<open>An empty block count\<close>

text \<open>
  Claim C5. When the block count is zero the computation still uses one digit, as it does
  for a highest line number of 1, so the width is the margin plus one digit advance; the
  digit count is at least 1 for every block count.
\<close>

theorem lineNumberAreaWidth_zero_blocks:
  "line_number_digits 0 = 1
   \<and> lineNumberAreaWidth advance9 0 = lineNumberAreaWidth advance9 1
   \<and> lineNumberAreaWidth advance9 0 = 3 + advance9
   \<and> 3 + advance9 * 1 \<le> lineNumberAreaWidth advance9 0
   \<and> 1 \<le> line_number_digits N"
  by (simp add: lineNumberAreaWidth_def line_number_digits_pos)
    (simp add: line_number_digits_def digits_loop.simps)

subsection \<open>Monotonicity in the line count\<close>

text \<open>
  Claim C6. With the same font metrics, the gutter width does not decrease when the block
  count grows: for \<open>N1 \<le> N2\<close> the width at \<open>N1\<close> is at most the width at \<open>N2\<close>. The
  advance of the digit 9 that the toolkit reports is a pixel distance, so it is not
  negative.
\<close>

theorem lineNumberAreaWidth_mono:
  assumes "N1 \<le> N2" and "0 \<le> advance9"
  shows "lineNumberAreaWidth advance9 N1 \<le> lineNumberAreaWidth advance9 N2"
proof -
  from assms(1) have "line_number_digits N1 \<le> line_number_digits N2"
    by (rule line_number_digits_mono)
  from this assms(2)
  have "advance9 * line_number_digits N1 \<le> advance9 * line_number_digits N2"
    by (rule mult_left_mono)
  then show ?thesis by (simp add: lineNumberAreaWidth_def)
qed

theorem lineNumberAreaWidth_mono_witness:
  "(9::int) \<le> 10 \<and> (0::int) \<le> 7 \<and> lineNumberAreaWidth 7 9 = 10
   \<and> lineNumberAreaWidth 7 10 = 17 \<and> lineNumberAreaWidth 7 9 \<le> lineNumberAreaWidth 7 10"
  using lineNumberAreaWidth_mono [of 9 10 7]
  by (simp add: lineNumberAreaWidth_def line_number_digits_def digits_loop.simps)

section \<open>Properties of the editor\<close>

subsection \<open>What the connected slots leave alone\<close>

lemma emit_changes_document [simp]: "document (emit_changes old new) = document new"
  by (simp add: emit_changes_def Let_def updateLineNumberAreaWidth_def highlightCurrentLine_def)

lemma emit_changes_textCursor [simp]: "textCursor (emit_changes old new) = textCursor new"
  by (simp add: emit_changes_def Let_def updateLineNumberAreaWidth_def highlightCurrentLine_def)

lemma emit_changes_modified [simp]: "modified (emit_changes old new) = modified new"
  by (simp add: emit_changes_def Let_def updateLineNumberAreaWidth_def highlightCurrentLine_def)

lemma emit_changes_readOnly [simp]: "readOnly (emit_changes old new) = readOnly new"
  by (simp add: emit_changes_def Let_def updateLineNumberAreaWidth_def highlightCurrentLine_def)

lemma emit_changes_file_path [simp]: "file_path (emit_changes old new) = file_path new"
  by (simp add: emit_changes_def Let_def updateLineNumberAreaWidth_def highlightCurrentLine_def)

lemma stored_text_four_spaces [simp]: "stored_text four_spaces = four_spaces"
  by (simp add: four_spaces_def starts_block_def)

lemma insertText_document:
  "document (insertText txt self) =
     take (selectionStart (textCursor self)) (document self) @ stored_text txt
       @ drop (selectionEnd (textCursor self)) (document self)"
  by (simp add: insertText_def Let_def)

lemma insertText_textCursor:
  "textCursor (insertText txt self) =
     \<lparr>anchor = selectionStart (textCursor self) + length (stored_text txt),
      position = selectionStart (textCursor self) + length (stored_text txt)\<rparr>"
  by (simp add: insertText_def Let_def)

lemma take_mid_drop:
  assumes "lo \<le> hi"
  shows "take lo xs @ take (hi - lo) (drop lo xs) @ drop hi xs = (xs :: 'a list)"
proof -
  have "drop (hi - lo) (drop lo xs) = drop hi xs"
    using assms by simp
  then have "take (hi - lo) (drop lo xs) @ drop hi xs = drop lo xs"
    using append_take_drop_id [of "hi - lo" "drop lo xs"] by simp
  then show ?thesis by simp
qed

lemma selection_split:
  "take (selectionStart c) xs @ take (selectionEnd c - selectionStart c) (drop (selectionStart c) xs)
     @ drop (selectionEnd c) xs = xs"
  by (rule take_mid_drop) (simp add: selectionStart_def selectionEnd_def)

lemma filter_replace_selection:
  "length (filter P (take (selectionStart c) xs @ drop (selectionEnd c) xs)) \<le> length (filter P xs)"
proof -
  have "length (filter P xs) =
      length (filter P (take (selectionStart c) xs @
        take (selectionEnd c - selectionStart c) (drop (selectionStart c) xs)
        @ drop (selectionEnd c) xs))"
    by (simp only: selection_split)
  then show ?thesis by simp
qed

subsection \<open>The sample states, evaluated\<close>

lemma CodeEditor_on_posix_latin1:
  "CodeEditor_on posix_latin1 =
     \<lparr>document = [], modified = False, textCursor = \<lparr>anchor = 0, position = 0\<rparr>,
      readOnly = False, file_path = None,
      extraSelections =
        [\<lparr>format_background = Some (Lighter (GlobalColor ''yellow'') 5),
          format_FullWidthSelection = True, cursor = \<lparr>anchor = 0, position = 0\<rparr>\<rparr>],
      viewportMargins = (10, 0, 0, 0),
      lineNumberArea =
        \<lparr>geometry = \<lparr>rect_x = 0, rect_y = 0, rect_width = 100, rect_height = 30\<rparr>,
         requests = []\<rparr>,
      horizontalAdvance9 = 7,
      viewport_rect = \<lparr>rect_x = 0, rect_y = 0, rect_width = 640, rect_height = 480\<rparr>\<rparr>"
  by (simp add: CodeEditor_on_def new_CodeEditor_def posix_latin1_def highlightCurrentLine_def
      updateLineNumberAreaWidth_def blockCount_def clearSelection_def lineNumberAreaWidth_def
      line_number_digits_def digits_loop_small)

lemma editor_ab_eq:
  "editor_ab =
     \<lparr>document = [97, 98], modified = False, textCursor = \<lparr>anchor = 1, position = 1\<rparr>,
      readOnly = False, file_path = None,
      extraSelections =
        [\<lparr>format_background = Some (Lighter (GlobalColor ''yellow'') 5),
          format_FullWidthSelection = True, cursor = \<lparr>anchor = 1, position = 1\<rparr>\<rparr>],
      viewportMargins = (10, 0, 0, 0),
      lineNumberArea =
        \<lparr>geometry = \<lparr>rect_x = 0, rect_y = 0, rect_width = 100, rect_height = 30\<rparr>,
         requests = []\<rparr>,
      horizontalAdvance9 = 7,
      viewport_rect = \<lparr>rect_x = 0, rect_y = 0, rect_width = 640, rect_height = 480\<rparr>\<rparr>"
  by (simp add: editor_ab_def CodeEditor_on_posix_latin1 setTextCursor_def setPlainText_def
      emit_changes_def blockCount_def starts_block_def highlightCurrentLine_def
      clearSelection_def)

subsection \<open>The Tab key\<close>

text \<open>
  Claim C3. For every editor state and cursor, a key press whose key is Tab puts exactly
  the four spaces into the document at the cursor (in place of the selection, which is
  empty when the cursor has none) and leaves the cursor behind them; the document gains
  no tab character; and the handler of the base class is not run: the outcome is the
  same whatever that handler is.
\<close>

theorem keyPressEvent_Tab_four_spaces:
  assumes "key event = Key_Tab"
  shows "document (keyPressEvent super_handler event self) =
           take (selectionStart (textCursor self)) (document self)
             @ [SPACE, SPACE, SPACE, SPACE]
             @ drop (selectionEnd (textCursor self)) (document self)
         \<and> (anchor (textCursor self) = position (textCursor self) \<longrightarrow>
              document (keyPressEvent super_handler event self) =
                take (position (textCursor self)) (document self)
                  @ [SPACE, SPACE, SPACE, SPACE]
                  @ drop (position (textCursor self)) (document self))
         \<and> textCursor (keyPressEvent super_handler event self) =
              \<lparr>anchor = selectionStart (textCursor self) + 4,
               position = selectionStart (textCursor self) + 4\<rparr>
         \<and> length (filter (\<lambda>ch. ch = TAB) (document (keyPressEvent super_handler event self)))
              \<le> length (filter (\<lambda>ch. ch = TAB) (document self))
         \<and> keyPressEvent super_handler event self = keyPressEvent other_handler event self"
proof -
  have k: "keyPressEvent super_handler event self = insertText four_spaces self"
    and k': "keyPressEvent other_handler event self = insertText four_spaces self"
    using assms by (simp_all add: keyPressEvent_def)
  have doc: "document (insertText four_spaces self) =
      take (selectionStart (textCursor self)) (document self) @ [SPACE, SPACE, SPACE, SPACE]
        @ drop (selectionEnd (textCursor self)) (document self)"
    by (simp add: insertText_document) (simp add: four_spaces_def)
  have collapsed: "anchor (textCursor self) = position (textCursor self) \<Longrightarrow>
      selectionStart (textCursor self) = position (textCursor self)
      \<and> selectionEnd (textCursor self) = position (textCursor self)"
    by (simp add: selectionStart_def selectionEnd_def)
  have cur: "textCursor (insertText four_spaces self) =
      \<lparr>anchor = selectionStart (textCursor self) + 4,
       position = selectionStart (textCursor self) + 4\<rparr>"
    by (simp add: insertText_textCursor) (simp add: four_spaces_def)
  have tabs: "length (filter (\<lambda>ch. ch = TAB) (document (insertText four_spaces self)))
      \<le> length (filter (\<lambda>ch. ch = TAB) (document self))"
    using filter_replace_selection [of "\<lambda>ch. ch = TAB" "textCursor self" "document self"]
    by (simp add: doc)
  show ?thesis
    using doc collapsed cur tabs by (simp add: k k')
qed

theorem keyPressEvent_Tab_four_spaces_witness:
  "key \<lparr>key = Key_Tab\<rparr> = Key_Tab
   \<and> document editor_ab = [97, 98]
   \<and> textCursor editor_ab = \<lparr>anchor = 1, position = 1\<rparr>
   \<and> document (keyPressEvent (\<lambda>ev ed. ed) \<lparr>key = Key_Tab\<rparr> editor_ab) = [97, 32, 32, 32, 32, 98]
   \<and> textCursor (keyPressEvent (\<lambda>ev ed. ed) \<lparr>key = Key_Tab\<rparr> editor_ab)
       = \<lparr>anchor = 5, position = 5\<rparr>"
  using keyPressEvent_Tab_four_spaces [of "\<lparr>key = Key_Tab\<rparr>" "\<lambda>ev ed. ed" editor_ab]
  by (simp add: editor_ab_eq selectionStart_def selectionEnd_def)

text \<open>
  Claim C10. The Tab branch does not look at the read-only flag. On a read-only editor a
  Tab press writes the four spaces into the document just as on a writable one: the
  document afterwards is the text before the selection, the four spaces, and the text
  behind the selection, and it is marked as modified; with no selection it is longer by
  four characters; its content can only be the same as before when the selected text
  was itself four spaces.
\<close>

theorem keyPressEvent_Tab_readOnly:
  assumes "key event = Key_Tab" and "readOnly self"
  shows "document (keyPressEvent super_handler event self) =
           take (selectionStart (textCursor self)) (document self)
             @ four_spaces
             @ drop (selectionEnd (textCursor self)) (document self)
         \<and> modified (keyPressEvent super_handler event self)
         \<and> readOnly (keyPressEvent super_handler event self)
         \<and> document (keyPressEvent super_handler event (self\<lparr>readOnly := False\<rparr>))
             = document (keyPressEvent super_handler event self)
         \<and> (anchor (textCursor self) = position (textCursor self) \<longrightarrow>
              length (document (keyPressEvent super_handler event self))
                = length (document self) + 4
              \<and> document (keyPressEvent super_handler event self) \<noteq> document self)
         \<and> (document (keyPressEvent super_handler event self) = document self \<longrightarrow>
              selectedText self = four_spaces)"
proof -
  let ?c = "textCursor self" and ?d = "document self"
  have k: "keyPressEvent super_handler event self = insertText four_spaces self"
    and k': "keyPressEvent super_handler event (self\<lparr>readOnly := False\<rparr>)
      = insertText four_spaces (self\<lparr>readOnly := False\<rparr>)"
    using assms(1) by (simp_all add: keyPressEvent_def)
  have doc: "document (insertText four_spaces self) =
      take (selectionStart ?c) ?d @ four_spaces @ drop (selectionEnd ?c) ?d"
    by (simp add: insertText_document)
  have doc': "document (insertText four_spaces (self\<lparr>readOnly := False\<rparr>)) =
      take (selectionStart ?c) ?d @ four_spaces @ drop (selectionEnd ?c) ?d"
    by (simp add: insertText_document)
  have m: "modified (insertText four_spaces self)"
    by (simp add: insertText_def Let_def)
  have r: "readOnly (insertText four_spaces self)"
    using assms(2) by (simp add: insertText_def Let_def)
  have len: "length (document (insertText four_spaces self)) = length ?d + 4"
    if "anchor ?c = position ?c"
  proof -
    from that have "selectionStart ?c = position ?c" "selectionEnd ?c = position ?c"
      by (simp_all add: selectionStart_def selectionEnd_def)
    then show ?thesis
      by (simp add: doc) (simp add: four_spaces_def)
  qed
  have same: "selectedText self = four_spaces"
    if "document (insertText four_spaces self) = ?d"
  proof -
    have "take (selectionStart ?c) ?d @ four_spaces @ drop (selectionEnd ?c) ?d
        = take (selectionStart ?c) ?d @ selectedText self @ drop (selectionEnd ?c) ?d"
      using that doc by (simp add: selectedText_def selection_split)
    then show ?thesis by simp
  qed
  have neq: "document (insertText four_spaces self) \<noteq> ?d" if "anchor ?c = position ?c"
  proof
    assume "document (insertText four_spaces self) = ?d"
    then have "length (document (insertText four_spaces self)) = length ?d" by simp
    with len [OF that] show False by simp
  qed
  show ?thesis
    using doc doc' m r len same neq by (simp add: k k')
qed

theorem keyPressEvent_Tab_readOnly_witness:
  "key \<lparr>key = Key_Tab\<rparr> = Key_Tab
   \<and> readOnly (editor_ab\<lparr>readOnly := True\<rparr>)
   \<and> document (editor_ab\<lparr>readOnly := True\<rparr>) = [97, 98]
   \<and> \<not> modified (editor_ab\<lparr>readOnly := True\<rparr>)
   \<and> document (keyPressEvent (\<lambda>ev ed. ed) \<lparr>key = Key_Tab\<rparr> (editor_ab\<lparr>readOnly := True\<rparr>))
       = [97, 32, 32, 32, 32, 98]
   \<and> modified (keyPressEvent (\<lambda>ev ed. ed) \<lparr>key = Key_Tab\<rparr> (editor_ab\<lparr>readOnly := True\<rparr>))"
  using keyPressEvent_Tab_readOnly
    [of "\<lparr>key = Key_Tab\<rparr>" "editor_ab\<lparr>readOnly := True\<rparr>" "\<lambda>ev ed. ed"]
  by (simp add: editor_ab_eq selectionStart_def selectionEnd_def four_spaces_def)

subsection \<open>The highlight of the current line\<close>

text \<open>
  Claim C4. After every cursor movement the extra selections that
  \<open>highlightCurrentLine\<close> installs hold at most one highlight: the call builds its list
  afresh, so what was installed before does not matter, and the list is empty when the
  editor is read-only. A movement of the cursor runs the slot through the connection of
  \<open>cursorPositionChanged\<close>.
\<close>

theorem highlightCurrentLine_at_most_one:
  "length (extraSelections (highlightCurrentLine self)) \<le> 1
   \<and> (readOnly self \<longrightarrow> extraSelections (highlightCurrentLine self) = [])
   \<and> (\<not> readOnly self \<longrightarrow>
        extraSelections (highlightCurrentLine self) =
          [\<lparr>format_background = Some (Lighter (GlobalColor ''yellow'') 5),
            format_FullWidthSelection = True,
            cursor = \<lparr>anchor = position (textCursor self),
                      position = position (textCursor self)\<rparr>\<rparr>])
   \<and> extraSelections (highlightCurrentLine (self\<lparr>extraSelections := previous\<rparr>))
       = extraSelections (highlightCurrentLine self)
   \<and> (position c \<noteq> position (textCursor self) \<longrightarrow>
        setTextCursor c self = highlightCurrentLine (self\<lparr>textCursor := c\<rparr>)
        \<and> length (extraSelections (setTextCursor c self)) \<le> 1
        \<and> (readOnly self \<longrightarrow> extraSelections (setTextCursor c self) = []))"
proof -
  have moved: "setTextCursor c self = highlightCurrentLine (self\<lparr>textCursor := c\<rparr>)"
    if "position c \<noteq> position (textCursor self)"
    using that by (simp add: setTextCursor_def emit_changes_def blockCount_def)
  have hl: "length (extraSelections (highlightCurrentLine ed)) \<le> 1
      \<and> (readOnly ed \<longrightarrow> extraSelections (highlightCurrentLine ed) = [])" for ed
    by (simp add: highlightCurrentLine_def)
  have one: "\<not> readOnly self \<Longrightarrow>
      extraSelections (highlightCurrentLine self) =
        [\<lparr>format_background = Some (Lighter (GlobalColor ''yellow'') 5),
          format_FullWidthSelection = True,
          cursor = \<lparr>anchor = position (textCursor self),
                    position = position (textCursor self)\<rparr>\<rparr>]"
    by (simp add: highlightCurrentLine_def clearSelection_def)
  have fresh: "extraSelections (highlightCurrentLine (self\<lparr>extraSelections := previous\<rparr>))
      = extraSelections (highlightCurrentLine self)"
    by (simp add: highlightCurrentLine_def)
  have after: "length (extraSelections (setTextCursor c self)) \<le> 1
      \<and> (readOnly self \<longrightarrow> extraSelections (setTextCursor c self) = [])"
    if "position c \<noteq> position (textCursor self)"
    using hl [of "self\<lparr>textCursor := c\<rparr>"] by (simp add: moved [OF that])
  show ?thesis
    using hl [of self] one fresh moved after by blast
qed

theorem highlightCurrentLine_at_most_one_witness:
  "readOnly (editor_ab\<lparr>readOnly := True\<rparr>)
   \<and> \<not> readOnly editor_ab
   \<and> position \<lparr>anchor = 0, position = 2\<rparr>
       \<noteq> position (textCursor (editor_ab\<lparr>readOnly := True\<rparr>))
   \<and> length (extraSelections (editor_ab\<lparr>readOnly := True\<rparr>)) = 1
   \<and> extraSelections (setTextCursor \<lparr>anchor = 0, position = 2\<rparr> (editor_ab\<lparr>readOnly := True\<rparr>)) = []
   \<and> extraSelections (highlightCurrentLine (editor_ab\<lparr>readOnly := True\<rparr>)) = []
   \<and> length (extraSelections (highlightCurrentLine editor_ab)) = 1
   \<and> length (extraSelections (setTextCursor \<lparr>anchor = 0, position = 2\<rparr> editor_ab)) = 1"
  using highlightCurrentLine_at_most_one
    [of "editor_ab\<lparr>readOnly := True\<rparr>" "[]" "\<lparr>anchor = 0, position = 2\<rparr>"]
    highlightCurrentLine_at_most_one [of editor_ab "[]" "\<lparr>anchor = 0, position = 2\<rparr>"]
  by (simp add: editor_ab_eq highlightCurrentLine_def)

subsection \<open>Viewport updates\<close>

text \<open>
  Claim C7. For every update request of the viewport with rectangle \<open>rect\<close> and vertical
  delta \<open>dy\<close>: when \<open>dy\<close> is not zero the gutter receives exactly one request, to scroll
  its content by \<open>dy\<close> vertically and by nothing horizontally; otherwise it receives
  exactly one request, to repaint the rectangle that spans the gutter's width and the
  vertical extent of \<open>rect\<close>. The geometry of the gutter is left as it is.
\<close>

theorem updateLineNumberArea_requests:
  "(dy \<noteq> 0 \<longrightarrow>
      requests (lineNumberArea (updateLineNumberArea rect dy self))
        = requests (lineNumberArea self) @ [Scroll 0 dy])
   \<and> (dy = 0 \<longrightarrow>
      requests (lineNumberArea (updateLineNumberArea rect dy self))
        = requests (lineNumberArea self)
            @ [Update 0 (rect_y rect) (rect_width (geometry (lineNumberArea self)))
                 (rect_height rect)])
   \<and> geometry (lineNumberArea (updateLineNumberArea rect dy self))
       = geometry (lineNumberArea self)"
  by (simp add: updateLineNumberArea_def Let_def updateLineNumberAreaWidth_def
      scroll_def update_def width_def)

theorem updateLineNumberArea_requests_witness:
  "(5::int) \<noteq> 0
   \<and> requests (lineNumberArea editor_ab) = []
   \<and> requests (lineNumberArea
        (updateLineNumberArea \<lparr>rect_x = 0, rect_y = 40, rect_width = 640, rect_height = 16\<rparr> 5
           editor_ab)) = [Scroll 0 5]
   \<and> requests (lineNumberArea
        (updateLineNumberArea \<lparr>rect_x = 0, rect_y = 40, rect_width = 640, rect_height = 16\<rparr> 0
           editor_ab)) = [Update 0 40 100 16]"
  using updateLineNumberArea_requests
      [of 5 "\<lparr>rect_x = 0, rect_y = 40, rect_width = 640, rect_height = 16\<rparr>" editor_ab]
    updateLineNumberArea_requests
      [of 0 "\<lparr>rect_x = 0, rect_y = 40, rect_width = 640, rect_height = 16\<rparr>" editor_ab]
  by (simp add: editor_ab_eq)

section \<open>Properties of the window\<close>

subsection \<open>Closing a tab\<close>

text \<open>
  Claim C8. For every tab collection and every valid index \<open>i\<close>, closing the tab at \<open>i\<close>
  removes exactly that page: one page fewer, the pages before \<open>i\<close> stay where they are
  and the pages behind it move up by one, so the remaining pages keep their order; each
  remaining page is the same page as before, with its editor (document, file path) and
  its label.
\<close>

theorem close_tab_removes_exactly_one:
  assumes "0 \<le> i" and "i < count self"
  shows "pages (close_tab i self) = take (nat i) (pages self) @ drop (Suc (nat i)) (pages self)
         \<and> Suc (length (pages (close_tab i self))) = length (pages self)
         \<and> (\<forall>j < length (pages (close_tab i self)).
              pages (close_tab i self) ! j = pages self ! (if j < nat i then j else Suc j))"
proof -
  let ?ps = "pages self" and ?n = "nat i"
  from assms have n: "?n < length ?ps"
    by (simp add: count_def)
  have p: "pages (close_tab i self) = take ?n ?ps @ drop (Suc ?n) ?ps"
    using assms by (simp add: close_tab_def removeTab_def Let_def)
  have len: "Suc (length (take ?n ?ps @ drop (Suc ?n) ?ps)) = length ?ps"
    using n by simp
  have nth: "(take ?n ?ps @ drop (Suc ?n) ?ps) ! j = ?ps ! (if j < ?n then j else Suc j)"
    if "j < length (take ?n ?ps @ drop (Suc ?n) ?ps)" for j
  proof (cases "j < ?n")
    case True
    with n show ?thesis by (simp add: nth_append)
  next
    case False
    with n that have "Suc ?n + (j - ?n) = Suc j" by simp
    with False n that show ?thesis by (simp add: nth_append min_def)
  qed
  show ?thesis
    using len nth by (simp only: p) blast
qed

theorem close_tab_removes_exactly_one_witness:
  "(0::int) \<le> 1 \<and> 1 < count three_pages
   \<and> map tabText (pages three_pages) = [''a.txt'', ''Untitled'', ''b.txt'']
   \<and> map tabText (pages (close_tab 1 three_pages)) = [''a.txt'', ''b.txt'']
   \<and> pages (close_tab 1 three_pages) ! 0 = pages three_pages ! 0
   \<and> pages (close_tab 1 three_pages) ! 1 = pages three_pages ! 2
   \<and> length (pages (close_tab 1 three_pages)) = 2"
  using close_tab_removes_exactly_one [of 1 three_pages]
  by (simp add: three_pages_def count_def)

subsection \<open>Reading and writing text\<close>

lemma universal_newlines_no_CR: "CR \<notin> set (universal_newlines txt)"
  by (induction "txt" rule: universal_newlines.induct) auto

lemma universal_newlines_subset: "set (universal_newlines txt) \<subseteq> insert LF (set txt)"
  by (induction "txt" rule: universal_newlines.induct) auto

lemma universal_newlines_id: "CR \<notin> set txt \<Longrightarrow> universal_newlines txt = txt"
  by (induction "txt" rule: universal_newlines.induct) auto

lemma write_newlines_LF: "write_newlines [LF] txt = txt"
  by (induction "txt") (simp_all add: write_newlines_def)

lemma plain_stored_text:
  assumes "\<forall>ch \<in> set txt. ch \<notin> {CR, NBSP, LineSeparator, ParagraphSeparator,
             QTextBeginningOfFrame, QTextEndOfFrame}"
  shows "map plain_char (stored_text txt) = txt"
  using assms
  by (induction "txt" rule: stored_text.induct) (auto simp: plain_char_def starts_block_def)

lemma toPlainText_setPlainText:
  "toPlainText ((setPlainText content ed)\<lparr>file_path := fp\<rparr>) = map plain_char (stored_text content)"
  by (simp add: toPlainText_def setPlainText_def)

subsection \<open>The current page\<close>

lemma currentWidget_addTab_setCurrentIndex:
  "currentWidget (setCurrentIndex (fst (addTab ed label self)) (snd (addTab ed label self)))
     = Some ed"
  by (simp add: addTab_def setCurrentIndex_def currentWidget_def count_def nth_append)

lemma open_file_Inr:
  assumes "path \<noteq> []" and "py_read_text pf fs path = Inr content"
  shows "\<exists>w. open_file pf fs path self = Inr w
           \<and> currentWidget w
               = Some ((setPlainText content (CodeEditor_on pf))\<lparr>file_path := Some path\<rparr>)"
  using assms currentWidget_addTab_setCurrentIndex
    [of "(setPlainText content (CodeEditor_on pf))\<lparr>file_path := Some path\<rparr>"
        "os_path_basename pf path" self]
  by (simp add: open_file_def Let_def split_beta)

lemma open_file_Inl_iff:
  "open_file pf fs path self = Inl err \<longleftrightarrow> path \<noteq> [] \<and> py_read_text pf fs path = Inl err"
  by (cases "py_read_text pf fs path") (simp_all add: open_file_def Let_def split_beta)

lemma save_to_path_raised:
  assumes "currentWidget self = Some editor"
  shows "raised (save_to_path pf path (self, fs)) =
           (case py_write_text pf fs path (toPlainText editor) of
              Inl err \<Rightarrow> Some err | Inr fs2 \<Rightarrow> None)"
  using assms
  by (simp add: save_to_path_def py_write_text_def Let_def split: sum.splits)

lemma save_to_path_Returned:
  assumes "currentWidget self = Some editor"
    and "py_write_text pf fs path (toPlainText editor) = Inr fs2"
  shows "save_to_path pf path (self, fs) = Returned (self, fs2)"
proof (cases "py_open_w fs path")
  case (Inl err)
  with assms(2) show ?thesis by (simp add: py_write_text_def)
next
  case (Inr fs1)
  with assms show ?thesis
    by (simp add: save_to_path_def py_write_text_def Let_def)
qed

lemma save_file_with_path:
  assumes "currentWidget self = Some editor" and "file_path editor = Some path" and "path \<noteq> []"
  shows "save_file pf chosen (self, fs) = save_to_path pf path (self, fs)"
  using assms by (simp add: save_file_def)

lemma open_then_save_Returned:
  assumes "path \<noteq> []" and "py_read_text pf fs path = Inr content"
    and "py_write_text pf fs path (map plain_char (stored_text content)) = Inr fs2"
  shows "raised (open_then_save pf path (self, fs)) = None
         \<and> snd (state_of (open_then_save pf path (self, fs))) = fs2"
proof -
  let ?ed = "(setPlainText content (CodeEditor_on pf))\<lparr>file_path := Some path\<rparr>"
  from open_file_Inr [OF assms(1,2)] obtain w
    where w: "open_file pf fs path self = Inr w" and cur: "currentWidget w = Some ?ed"
    by blast
  have fp: "file_path ?ed = Some path" by simp
  have "save_file pf [] (w, fs) = save_to_path pf path (w, fs)"
    using cur fp assms(1) by (rule save_file_with_path)
  also have "\<dots> = Returned (w, fs2)"
  proof (rule save_to_path_Returned [OF cur])
    show "py_write_text pf fs path (toPlainText ?ed) = Inr fs2"
      using assms(3) by (simp only: toPlainText_setPlainText)
  qed
  finally have "open_then_save pf path (self, fs) = Returned (w, fs2)"
    by (simp add: open_then_save_def w)
  then show ?thesis by simp
qed


subsection \<open>Opening and saving at once\<close>

lemma latin1_encode_a_lf_b:
  "latin1_encode [97, LF, 98] = Some [CHR ''a'', CHR 0x0A, CHR ''b'']"
  by (simp add: latin1_encode_def char_of_def bit_iff_odd_drop_bit drop_bit_eq_div)

lemma latin1_encode_a_cr_lf_b:
  "latin1_encode [97, CR, LF, 98] = Some crlf_bytes"
  by (simp add: latin1_encode_def crlf_bytes_def char_of_def bit_iff_odd_drop_bit
      drop_bit_eq_div)

lemma latin1_decode_crlf_bytes: "latin1_decode crlf_bytes = Some [97, CR, LF, 98]"
  by (simp add: latin1_decode_def crlf_bytes_def)

lemma latin1_decode_lf_bytes: "latin1_decode lf_bytes = Some [97, LF, 98]"
  by (simp add: latin1_decode_def lf_bytes_def)

text \<open>
  A file that the process can open for reading and not for writing is opened into a tab,
  and the save that follows raises \<open>PermissionError\<close> and leaves the file system as it
  was.
\<close>

lemma open_then_save_unwritable:
  assumes "path \<noteq> []" and "fs path = File True False bytes"
    and "device_reads pf path" and "decode pf bytes = Some decoded"
  shows "raised (open_then_save pf path (self, fs)) = Some PermissionError
         \<and> snd (state_of (open_then_save pf path (self, fs))) = fs"
proof -
  let ?content = "universal_newlines decoded"
  let ?ed = "(setPlainText ?content (CodeEditor_on pf))\<lparr>file_path := Some path\<rparr>"
  have rd: "py_read_text pf fs path = Inr ?content"
    using assms(2,3,4) by (simp add: py_read_text_def)
  from open_file_Inr [OF assms(1) rd] obtain w
    where w: "open_file pf fs path self = Inr w" and cur: "currentWidget w = Some ?ed"
    by blast
  have fp: "file_path ?ed = Some path" by simp
  have "save_file pf [] (w, fs) = save_to_path pf path (w, fs)"
    using cur fp assms(1) by (rule save_file_with_path)
  also have "\<dots> = Raised PermissionError (w, fs)"
    using assms(2) by (simp add: save_to_path_def py_open_w_def Let_def)
  finally have "open_then_save pf path (self, fs) = Raised PermissionError (w, fs)"
    by (simp add: open_then_save_def w)
  then show ?thesis by simp
qed

lemma open_then_save_ro_txt:
  "raised (open_then_save posix_latin1 ''/tmp/ro.txt'' (initUI posix_latin1, disk0))
     = Some PermissionError"
proof -
  have "disk0 ''/tmp/ro.txt'' = File True False lf_bytes"
    by (simp add: disk0_def)
  moreover have "decode posix_latin1 lf_bytes = Some [97, LF, 98]"
    by (simp add: posix_latin1_def latin1_decode_lf_bytes)
  moreover have "device_reads posix_latin1 ''/tmp/ro.txt''"
    by (simp add: posix_latin1_def)
  moreover have "''/tmp/ro.txt'' \<noteq> []" by simp
  ultimately show ?thesis
    using open_then_save_unwritable
      [where path = "''/tmp/ro.txt''" and fs = disk0 and bytes = lf_bytes
         and pf = posix_latin1 and decoded = "[97, LF, 98]" and self = "initUI posix_latin1"]
    by simp
qed

text \<open>
  Claim C2, as the code has it. Opening a file and saving it at once writes back the same
  bytes when the process can open the file for reading and for writing, the device
  carries out the read and the write, the codec of the locale decodes the file and
  encodes the text to the same bytes, every line ending of the text is the line
  separator of the platform (where that is the line feed: the text has no carriage
  return), and the text has none of the characters that the document does not give back
  as they were put in (U+00A0, U+2028, U+2029, U+FDD0, U+FDD1). Then no exception is
  raised and the file system after the save is the one before.
\<close>

theorem open_then_save_identity:
  assumes "path \<noteq> []" and "fs path = File True True bytes"
    and "decode pf bytes = Some decoded" and "encode pf decoded = Some bytes"
    and "native_line_endings pf decoded"
    and "\<forall>ch \<in> set decoded. ch \<notin> {NBSP, LineSeparator, ParagraphSeparator,
           QTextBeginningOfFrame, QTextEndOfFrame}"
    and "device_reads pf path" and "device_accepts pf path bytes"
  shows "raised (open_then_save pf path (self, fs)) = None
         \<and> snd (state_of (open_then_save pf path (self, fs))) = fs
         \<and> (os_linesep pf = [LF] \<longrightarrow> CR \<notin> set decoded)"
proof -
  let ?content = "universal_newlines decoded"
  have rd: "py_read_text pf fs path = Inr ?content"
    using assms(2,3,7) by (simp add: py_read_text_def)
  have "\<forall>ch \<in> set ?content. ch \<notin> {CR, NBSP, LineSeparator, ParagraphSeparator,
           QTextBeginningOfFrame, QTextEndOfFrame}"
    using assms(6) universal_newlines_subset [of decoded] universal_newlines_no_CR [of decoded]
    by auto
  then have plain: "map plain_char (stored_text ?content) = ?content"
    by (rule plain_stored_text)
  have "write_newlines (os_linesep pf) ?content = decoded"
    using assms(5) by (simp add: native_line_endings_def)
  then have "py_write pf (fs(path := File True True [])) path ?content
      = Inr ((fs(path := File True True []))(path := File True True bytes))"
    using assms(4,8) by (simp add: py_write_def)
  moreover have "(fs(path := File True True []))(path := File True True bytes) = fs"
    using assms(2) by (simp add: fun_eq_iff)
  ultimately have wr: "py_write_text pf fs path (map plain_char (stored_text ?content)) = Inr fs"
    using assms(2) by (simp add: py_write_text_def py_open_w_def plain)
  have posix: "CR \<notin> set decoded" if "os_linesep pf = [LF]"
  proof -
    from that assms(5) have "universal_newlines decoded = decoded"
      by (simp add: native_line_endings_def write_newlines_LF)
    with universal_newlines_no_CR [of decoded] show ?thesis by simp
  qed
  show ?thesis
    using open_then_save_Returned [OF assms(1) rd wr] posix by simp
qed

theorem open_then_save_identity_witness:
  "''/tmp/b.txt'' \<noteq> [] \<and> disk0 ''/tmp/b.txt'' = File True True lf_bytes
   \<and> device_reads posix_latin1 ''/tmp/b.txt''
   \<and> device_accepts posix_latin1 ''/tmp/b.txt'' lf_bytes
   \<and> decode posix_latin1 lf_bytes = Some [97, LF, 98]
   \<and> encode posix_latin1 [97, LF, 98] = Some lf_bytes
   \<and> native_line_endings posix_latin1 [97, LF, 98]
   \<and> set [97, LF, 98] \<inter> {NBSP, LineSeparator, ParagraphSeparator,
           QTextBeginningOfFrame, QTextEndOfFrame} = {}
   \<and> raised (open_then_save posix_latin1 ''/tmp/b.txt'' (initUI posix_latin1, disk0)) = None
   \<and> snd (state_of (open_then_save posix_latin1 ''/tmp/b.txt'' (initUI posix_latin1, disk0)))
       = disk0
   \<and> native_line_endings windows_latin1 [97, CR, LF, 98]
   \<and> snd (state_of (open_then_save windows_latin1 ''/tmp/a.txt'' (initUI windows_latin1, disk0)))
       = disk0"
proof -
  have a: "disk0 ''/tmp/b.txt'' = File True True lf_bytes"
    and a': "disk0 ''/tmp/a.txt'' = File True True crlf_bytes"
    by (simp_all add: disk0_def)
  have f: "device_accepts posix_latin1 ''/tmp/b.txt'' lf_bytes"
    and f': "device_accepts windows_latin1 ''/tmp/a.txt'' crlf_bytes"
    and g: "device_reads posix_latin1 ''/tmp/b.txt''"
    and g': "device_reads windows_latin1 ''/tmp/a.txt''"
    by (simp_all add: posix_latin1_def windows_latin1_def)
  have b: "decode posix_latin1 lf_bytes = Some [97, LF, 98]"
    and b': "decode windows_latin1 crlf_bytes = Some [97, CR, LF, 98]"
    by (simp_all add: posix_latin1_def windows_latin1_def latin1_decode_lf_bytes
        latin1_decode_crlf_bytes)
  have c: "encode posix_latin1 [97, LF, 98] = Some lf_bytes"
    and c': "encode windows_latin1 [97, CR, LF, 98] = Some crlf_bytes"
    by (simp_all add: posix_latin1_def windows_latin1_def latin1_encode_a_lf_b lf_bytes_def
        latin1_encode_a_cr_lf_b)
  have d: "native_line_endings posix_latin1 [97, LF, 98]"
    and d': "native_line_endings windows_latin1 [97, CR, LF, 98]"
    by (simp_all add: native_line_endings_def write_newlines_def posix_latin1_def
        windows_latin1_def)
  have e: "\<forall>ch \<in> set [97, LF, 98]. ch \<notin> {NBSP, LineSeparator, ParagraphSeparator,
           QTextBeginningOfFrame, QTextEndOfFrame}"
    and e': "\<forall>ch \<in> set [97, CR, LF, 98]. ch \<notin> {NBSP, LineSeparator, ParagraphSeparator,
           QTextBeginningOfFrame, QTextEndOfFrame}"
    by simp_all
  have p: "''/tmp/b.txt'' \<noteq> []" and p': "''/tmp/a.txt'' \<noteq> []" by simp_all
  show ?thesis
    using open_then_save_identity
        [where path = "''/tmp/b.txt''" and fs = disk0 and bytes = lf_bytes
           and pf = posix_latin1 and decoded = "[97, LF, 98]" and self = "initUI posix_latin1"]
      open_then_save_identity
        [where path = "''/tmp/a.txt''" and fs = disk0 and bytes = crlf_bytes
           and pf = windows_latin1 and decoded = "[97, CR, LF, 98]"
           and self = "initUI windows_latin1"]
      p a b c d e f g p' a' b' c' d' e' f' g'
    by simp
qed

text \<open>
  The claim as the specification words it, for every file, does not hold. On a POSIX
  platform a file of the four bytes \<open>a\<close>, carriage return, line feed, \<open>b\<close> is read as the
  text \<open>a\<close>, line feed, \<open>b\<close>, and the save writes those three bytes.
\<close>

theorem open_then_save_crlf_counterexample:
  "disk0 ''/tmp/a.txt'' = File True True [CHR ''a'', CHR 0x0D, CHR 0x0A, CHR ''b'']
   \<and> raised (open_then_save posix_latin1 ''/tmp/a.txt'' (initUI posix_latin1, disk0)) = None
   \<and> snd (state_of (open_then_save posix_latin1 ''/tmp/a.txt'' (initUI posix_latin1, disk0)))
        ''/tmp/a.txt'' = File True True [CHR ''a'', CHR 0x0A, CHR ''b'']"
proof -
  have rd: "py_read_text posix_latin1 disk0 ''/tmp/a.txt'' = Inr [97, LF, 98]"
    by (simp add: py_read_text_def disk0_def posix_latin1_def latin1_decode_crlf_bytes)
  have st: "map plain_char (stored_text [97, LF, 98]) = [97, LF, 98]"
    by (simp add: plain_char_def starts_block_def)
  have wr: "py_write_text posix_latin1 disk0 ''/tmp/a.txt'' (map plain_char (stored_text [97, LF, 98]))
      = Inr ((disk0(''/tmp/a.txt'' := File True True []))
               (''/tmp/a.txt'' := File True True [CHR ''a'', CHR 0x0A, CHR ''b'']))"
    unfolding st
    by (simp add: py_write_text_def py_open_w_def py_write_def disk0_def posix_latin1_def
        write_newlines_def latin1_encode_a_lf_b)
  have p: "''/tmp/a.txt'' \<noteq> []" by simp
  show ?thesis
    using open_then_save_Returned [OF p rd wr, of "initUI posix_latin1"]
    by (simp add: disk0_def crlf_bytes_def)
qed

subsection \<open>Failures of reading and writing\<close>

lemma currentWidget_set_current_file_path:
  assumes "currentWidget self = Some editor"
  shows "currentWidget (set_current_file_path path self)
           = Some (editor\<lparr>file_path := Some path\<rparr>)"
proof -
  from assms have valid: "0 \<le> currentIndex self" "currentIndex self < count self"
    and ed: "editor = widget (pages self ! nat (currentIndex self))"
    by (auto simp: currentWidget_def split: if_splits)
  from valid have "nat (currentIndex self) < length (pages self)"
    by (simp add: count_def)
  with valid ed show ?thesis
    by (simp add: currentWidget_def set_current_file_path_def count_def)
qed

lemma save_file_as_raised:
  assumes "currentWidget self = Some editor" and "path \<noteq> []"
  shows "raised (save_file_as pf path (self, fs)) =
           (case py_write_text pf fs path (toPlainText editor) of
              Inl err \<Rightarrow> Some err | Inr fs2 \<Rightarrow> None)"
proof -
  let ?self1 = "set_current_file_path path self"
  have cur: "currentWidget ?self1 = Some (editor\<lparr>file_path := Some path\<rparr>)"
    using assms(1) by (rule currentWidget_set_current_file_path)
  have same: "toPlainText (editor\<lparr>file_path := Some path\<rparr>) = toPlainText editor"
    by (simp add: toPlainText_def)
  have "raised (save_file_as pf path (self, fs)) = raised (save_to_path pf path (?self1, fs))"
    using assms by (cases "save_to_path pf path (?self1, fs)") (simp_all add: save_file_as_def)
  also have "\<dots> = (case py_write_text pf fs path (toPlainText editor) of
              Inl err \<Rightarrow> Some err | Inr fs2 \<Rightarrow> None)"
    using save_to_path_raised [OF cur, of pf path fs] by (simp only: same)
  finally show ?thesis .
qed

lemma save_file_untitled:
  assumes "currentWidget self = Some editor"
    and "file_path editor = None \<or> file_path editor = Some []"
  shows "save_file pf chosen (self, fs) = save_file_as pf chosen (self, fs)"
  using assms by (auto simp: save_file_def)

lemma currentWidget_initUI: "currentWidget (initUI pf) = Some (CodeEditor_on pf)"
  using currentWidget_addTab_setCurrentIndex
    [of "CodeEditor_on pf" "''Untitled''" "\<lparr>pages = [], currentIndex = - 1\<rparr>"]
  by (simp add: initUI_def new_file_def Let_def split_beta)

lemma close_only_tab: "close_tab 0 (initUI pf) = \<lparr>pages = [], currentIndex = - 1\<rparr>"
  by (simp add: initUI_def new_file_def close_tab_def removeTab_def addTab_def
      setCurrentIndex_def count_def Let_def)

text \<open>
  Claim C9, as the code has it. Opening and saving handle no error. \<open>open_file\<close> raises
  an error exactly when a path was chosen and reading the file fails, and then it is
  that error. A failure of opening the file for writing is raised by \<open>_save_to_path\<close>
  whatever the state. When a tab is current, \<open>_save_to_path\<close>, \<open>save_file_as\<close> with a
  chosen path and \<open>save_file\<close> for an editor with a file path raise an error exactly when
  writing the editor's text to the path fails, and then it is that error; so does
  \<open>save_file\<close> for an editor without a file path, with the path chosen in the dialog.
\<close>

theorem file_errors_propagate:
  "(open_file pf fs path self = Inl err \<longleftrightarrow> path \<noteq> [] \<and> py_read_text pf fs path = Inl err)
   \<and> (py_open_w fs path = Inl err \<longrightarrow> raised (save_to_path pf path (self, fs)) = Some err)
   \<and> (currentWidget self = Some editor \<longrightarrow>
        (raised (save_to_path pf path (self, fs)) = Some err
           \<longleftrightarrow> py_write_text pf fs path (toPlainText editor) = Inl err)
        \<and> (path \<noteq> [] \<longrightarrow>
             (raised (save_file_as pf path (self, fs)) = Some err
                \<longleftrightarrow> py_write_text pf fs path (toPlainText editor) = Inl err))
        \<and> (file_path editor = Some path \<and> path \<noteq> [] \<longrightarrow>
             (raised (save_file pf chosen (self, fs)) = Some err
                \<longleftrightarrow> py_write_text pf fs path (toPlainText editor) = Inl err))
        \<and> ((file_path editor = None \<or> file_path editor = Some []) \<and> path \<noteq> [] \<longrightarrow>
             (raised (save_file pf path (self, fs)) = Some err
                \<longleftrightarrow> py_write_text pf fs path (toPlainText editor) = Inl err)))"
proof -
  have opn: "py_open_w fs path = Inl err \<Longrightarrow> raised (save_to_path pf path (self, fs)) = Some err"
    by (simp add: save_to_path_def Let_def)
  have sv: "raised (save_to_path pf path (self, fs)) = Some err
      \<longleftrightarrow> py_write_text pf fs path (toPlainText editor) = Inl err"
    if "currentWidget self = Some editor"
    by (cases "py_write_text pf fs path (toPlainText editor)")
      (simp_all add: save_to_path_raised [OF that])
  have sa: "raised (save_file_as pf path (self, fs)) = Some err
      \<longleftrightarrow> py_write_text pf fs path (toPlainText editor) = Inl err"
    if "currentWidget self = Some editor" and "path \<noteq> []"
    by (cases "py_write_text pf fs path (toPlainText editor)")
      (simp_all add: save_file_as_raised [OF that])
  have sf: "raised (save_file pf chosen (self, fs)) = Some err
      \<longleftrightarrow> py_write_text pf fs path (toPlainText editor) = Inl err"
    if "currentWidget self = Some editor" and "file_path editor = Some path" and "path \<noteq> []"
    using sv [OF that(1)] by (simp add: save_file_with_path [OF that])
  have su: "raised (save_file pf path (self, fs)) = Some err
      \<longleftrightarrow> py_write_text pf fs path (toPlainText editor) = Inl err"
    if "currentWidget self = Some editor"
      and "file_path editor = None \<or> file_path editor = Some []" and "path \<noteq> []"
    using sa [OF that(1,3)] by (simp add: save_file_untitled [OF that(1,2)])
  show ?thesis
    using open_file_Inl_iff [of pf fs path self err] opn sv sa sf su by blast
qed

theorem file_errors_propagate_witness:
  "currentWidget (initUI posix_latin1) = Some (CodeEditor_on posix_latin1)
   \<and> py_read_text posix_latin1 disk0 ''/etc/shadow'' = Inl PermissionError
   \<and> open_file posix_latin1 disk0 ''/etc/shadow'' (initUI posix_latin1) = Inl PermissionError
   \<and> py_open_w disk0 ''/etc/shadow'' = Inl PermissionError
   \<and> py_write_text posix_latin1 disk0 ''/etc/shadow'' (toPlainText (CodeEditor_on posix_latin1))
       = Inl PermissionError
   \<and> raised (save_to_path posix_latin1 ''/etc/shadow'' (initUI posix_latin1, disk0))
       = Some PermissionError
   \<and> raised (save_file_as posix_latin1 ''/etc/shadow'' (initUI posix_latin1, disk0))
       = Some PermissionError
   \<and> raised (save_file posix_latin1 ''/etc/shadow'' (initUI posix_latin1, disk0))
       = Some PermissionError"
proof -
  have cur: "currentWidget (initUI posix_latin1) = Some (CodeEditor_on posix_latin1)"
    by (rule currentWidget_initUI)
  have rd: "py_read_text posix_latin1 disk0 ''/etc/shadow'' = Inl PermissionError"
    by (simp add: py_read_text_def disk0_def)
  have ow: "py_open_w disk0 ''/etc/shadow'' = Inl PermissionError"
    by (simp add: py_open_w_def disk0_def)
  have wr: "py_write_text posix_latin1 disk0 ''/etc/shadow''
      (toPlainText (CodeEditor_on posix_latin1)) = Inl PermissionError"
    by (simp add: py_write_text_def ow)
  have untitled: "file_path (CodeEditor_on posix_latin1) = None"
    by (simp add: CodeEditor_on_posix_latin1)
  have sf: "save_file posix_latin1 ''/etc/shadow'' (initUI posix_latin1, disk0)
      = save_file_as posix_latin1 ''/etc/shadow'' (initUI posix_latin1, disk0)"
    by (simp add: save_file_def cur untitled)
  show ?thesis
    using file_errors_propagate
      [where pf = posix_latin1 and fs = disk0 and path = "''/etc/shadow''"
         and self = "initUI posix_latin1" and err = PermissionError
         and editor = "CodeEditor_on posix_latin1"]
      cur rd ow wr sf
    by simp
qed

text \<open>
  The claim as the specification words it, that saving raises an error only when the
  file operation fails, does not hold when no tab is open. After the only tab of a new
  window is closed, \<open>save_file\<close> raises \<open>AttributeError\<close> and touches no file; and
  \<open>_save_to_path\<close> in that state opens its file without a failure, which empties it, and
  then raises \<open>AttributeError\<close>.
\<close>

theorem save_without_tab_counterexample:
  "pages (close_tab 0 (initUI posix_latin1)) = []
   \<and> currentWidget (close_tab 0 (initUI posix_latin1)) = None
   \<and> save_file posix_latin1 ''/tmp/b.txt'' (close_tab 0 (initUI posix_latin1), disk0)
       = Raised AttributeError (close_tab 0 (initUI posix_latin1), disk0)
   \<and> py_open_w disk0 ''/tmp/b.txt'' = Inr (disk0(''/tmp/b.txt'' := File True True []))
   \<and> save_to_path posix_latin1 ''/tmp/b.txt'' (close_tab 0 (initUI posix_latin1), disk0)
       = Raised AttributeError
           (close_tab 0 (initUI posix_latin1), disk0(''/tmp/b.txt'' := File True True []))"
proof -
  have none: "currentWidget \<lparr>pages = [], currentIndex = - 1\<rparr> = None"
    by (simp add: currentWidget_def)
  have ow: "py_open_w disk0 ''/tmp/b.txt'' = Inr (disk0(''/tmp/b.txt'' := File True True []))"
    by (simp add: py_open_w_def disk0_def)
  show ?thesis
    by (simp add: close_only_tab none ow save_file_def save_to_path_def)
qed

end
